theory Spec2Isabelle
  imports Complex_Main
begin

section \<open>Configuration constants (config.py)\<close>

text \<open>
  The entries of \<^verbatim>\<open>ARUCO_CONFIG\<close> and \<^verbatim>\<open>NAVIGATION_CONFIG\<close> that the navigation
  controller reads. They are Python integers used in float arithmetic.
\<close>

definition THRESHOLD :: real where
  "THRESHOLD = 25"

definition TARGET_X :: real where
  "TARGET_X = 160"

definition TARGET_Y :: real where
  "TARGET_Y = 192"

definition HEIGHT_TOLERANCE_CM :: real where
  "HEIGHT_TOLERANCE_CM = 4"

definition TARGET_LOST_TIMEOUT_SEC :: real where
  "TARGET_LOST_TIMEOUT_SEC = 3"

definition MAX_ID_TIME_RESET :: real where
  "MAX_ID_TIME_RESET = 5"

section \<open>Numbers\<close>

text \<open>
  Heights, distances and clock readings are finite floats that the controller only
  subtracts and compares; they are modelled as reals.

  The marker centre is different: \<^verbatim>\<open>calculate_control\<close> divides by a value derived from
  it, and what \<^verbatim>\<open>/\<close> does at a zero denominator depends on the runtime class of the
  operands. \<^verbatim>\<open>MarkerInfo\<close> annotates the centre as \<^verbatim>\<open>float\<close>;
  \<^verbatim>\<open>CameraHandler.detect_markers\<close> stores the result of \<^verbatim>\<open>np.mean\<close>, a numpy floating
  scalar. A Python float raises \<^verbatim>\<open>ZeroDivisionError\<close>; a numpy scalar returns an
  infinity (or nan for 0/0) and only emits a warning.
\<close>

datatype number = PyFloat real | NpFloat real

fun num_val :: "number \<Rightarrow> real" where
  "num_val (PyFloat r) = r"
| "num_val (NpFloat r) = r"

text \<open>Arithmetic with a Python integer constant keeps the class of the float operand.\<close>

fun num_map :: "(real \<Rightarrow> real) \<Rightarrow> number \<Rightarrow> number" where
  "num_map f (PyFloat r) = PyFloat (f r)"
| "num_map f (NpFloat r) = NpFloat (f r)"

text \<open>A float value that may be infinite or nan: the result of a numpy division.\<close>

datatype xreal = Fin real | PInf | NInf | NaN

fun xneg :: "xreal \<Rightarrow> xreal" where
  "xneg (Fin r) = Fin (- r)"
| "xneg PInf = NInf"
| "xneg NInf = PInf"
| "xneg NaN = NaN"

datatype py_error = ZeroDivisionError

text \<open>
  numpy's scalar division. The only zero denominator that \<^verbatim>\<open>calculate_control\<close> can
  produce is \<^verbatim>\<open>(192 - 192.0) / 192\<close>, a positive zero, so the sign of the infinity is
  the sign of the numerator.
\<close>

definition np_divide :: "real \<Rightarrow> real \<Rightarrow> xreal" where
  "np_divide a b =
     (if b \<noteq> 0 then Fin (a / b)
      else if 0 < a then PInf
      else if a < 0 then NInf
      else NaN)"

text \<open>
  \<^verbatim>\<open>x / y\<close>: the division of two Python floats raises at zero; as soon as one operand is
  a numpy scalar, numpy's division is used.
\<close>

fun true_div :: "number \<Rightarrow> number \<Rightarrow> py_error + xreal" where
  "true_div (PyFloat a) (PyFloat b) =
     (if b = 0 then Inl ZeroDivisionError else Inr (Fin (a / b)))"
| "true_div x y = Inr (np_divide (num_val x) (num_val y))"

fun np_arctan :: "xreal \<Rightarrow> xreal" where
  "np_arctan (Fin q) = Fin (arctan q)"
| "np_arctan PInf = Fin (pi / 2)"
| "np_arctan NInf = Fin (- (pi / 2))"
| "np_arctan NaN = NaN"

text \<open>\<^verbatim>\<open>a * 180 / np.pi\<close>\<close>

fun to_degrees :: "xreal \<Rightarrow> xreal" where
  "to_degrees (Fin a) = Fin (a * 180 / pi)"
| "to_degrees PInf = PInf"
| "to_degrees NInf = NInf"
| "to_degrees NaN = NaN"

section \<open>Data model\<close>

datatype NavigationPhase = TAKEOFF | ALIGNING | APPROACHING | LANDING

text \<open>
  \<^verbatim>\<open>MarkerInfo\<close> of camera_handler.py. The field \<^verbatim>\<open>id\<close> is called \<open>marker_id\<close> here;
  \<^verbatim>\<open>corners\<close> is never read by the navigation controller and is left out.
\<close>

record MarkerInfo =
  marker_id :: int
  center_x :: number
  center_y :: number
  distance :: real

record NavigationState =
  phase :: NavigationPhase
  target_id :: int
  reached_id :: int
  max_id :: int
  last_target_time :: real
  last_max_id_time :: real

text \<open>The dictionary \<^verbatim>\<open>control_values\<close> with its four fixed keys.\<close>

record ControlValues =
  left_right :: int
  forward_backward :: int
  up_down :: int
  yaw :: int

text \<open>
  The PID objects come from the external library \<^verbatim>\<open>simple_pid\<close>; their state is a type
  parameter.
\<close>

record 'p NavigationController =
  pid_x :: 'p
  pid_y :: 'p
  pid_r :: 'p
  state :: NavigationState
  control_values :: ControlValues

text \<open>
  \<^verbatim>\<open>int(pid(x))\<close>: the library call followed by the conversion. It yields the new state
  of the PID object and the integer, or \<open>None\<close> when the call or the conversion raises
  (for example \<^verbatim>\<open>int\<close> of nan or of an infinity).
\<close>

type_synonym 'p pid_call = "'p \<Rightarrow> xreal \<Rightarrow> int option \<times> 'p"

section \<open>NavigationController\<close>

text \<open>
  \<^verbatim>\<open>__init__\<close>: the initial navigation state. The two timestamps are two readings of
  \<^verbatim>\<open>time.time()\<close>.
\<close>

definition init_state :: "real \<Rightarrow> real \<Rightarrow> NavigationState" where
  "init_state t1 t2 =
     \<lparr>phase = TAKEOFF, target_id = 1, reached_id = 0, max_id = 0,
      last_target_time = t1, last_max_id_time = t2\<rparr>"

definition zero_controls :: ControlValues where
  "zero_controls = \<lparr>left_right = 0, forward_backward = 0, up_down = 0, yaw = 0\<rparr>"

subsection \<open>update_state\<close>

text \<open>\<^verbatim>\<open>next((m for m in markers if m.id == self.state.target_id), None)\<close>\<close>

definition find_target :: "MarkerInfo list \<Rightarrow> int \<Rightarrow> MarkerInfo option" where
  "find_target markers tid = List.find (\<lambda>m. marker_id m = tid) markers"

text \<open>
  The block that refreshes \<^verbatim>\<open>max_id\<close>. \<^verbatim>\<open>max(marker.id for marker in markers)\<close> runs
  only on a non-empty list.
\<close>

definition update_max_id :: "real \<Rightarrow> MarkerInfo list \<Rightarrow> NavigationState \<Rightarrow> NavigationState" where
  "update_max_id current_time markers s =
     (case markers of
        [] \<Rightarrow> s
      | m # rest \<Rightarrow>
          (let max_marker_id = fold max (map marker_id rest) (marker_id m)
           in if max_marker_id > max_id s
              then s\<lparr>max_id := max_marker_id, last_max_id_time := current_time\<rparr>
              else s))"

text \<open>
  \<^verbatim>\<open>update_state(markers, current_height, target_height)\<close>. The method reads and writes
  \<^verbatim>\<open>self.state\<close> only. Its first parameter here is the value that \<^verbatim>\<open>time.time()\<close>
  returns inside the call. No statement of the body can raise on well-typed arguments,
  so the method returns \<^verbatim>\<open>True\<close>.
\<close>

definition update_state ::
  "real \<Rightarrow> MarkerInfo list \<Rightarrow> real \<Rightarrow> real \<Rightarrow> NavigationState \<Rightarrow> bool \<times> NavigationState" where
  "update_state current_time markers current_height target_height s0 =
     (let s1 = update_max_id current_time markers s0;
          target_marker = find_target markers (target_id s1);
          s2 = (case target_marker of
                  None \<Rightarrow> s1
                | Some m \<Rightarrow> s1\<lparr>last_target_time := current_time\<rparr>);
          s3 =
            (if phase s2 = TAKEOFF then
               (if \<bar>current_height - target_height\<bar> \<le> HEIGHT_TOLERANCE_CM
                then s2\<lparr>phase := ALIGNING\<rparr> else s2)
             else if phase s2 = ALIGNING then
               (case target_marker of
                  None \<Rightarrow> s2
                | Some m \<Rightarrow>
                    if distance m \<le> THRESHOLD then s2\<lparr>phase := APPROACHING\<rparr> else s2)
             else if phase s2 = APPROACHING then
               (case target_marker of
                  None \<Rightarrow> s2
                | Some m \<Rightarrow>
                    if distance m \<le> THRESHOLD then
                      (if target_id s2 = 0 then s2\<lparr>phase := LANDING\<rparr>
                       else s2\<lparr>reached_id := reached_id s2 + 1,
                               target_id := target_id s2 + 1\<rparr>)
                    else s2)
             else s2)
      in (True, s3))"

text \<open>
  \<^verbatim>\<open>is_target_lost()\<close> and \<^verbatim>\<open>should_update_max_id()\<close> take no argument; \<open>now\<close> is the
  value that \<^verbatim>\<open>time.time()\<close> returns inside the call.
\<close>

definition is_target_lost :: "real \<Rightarrow> NavigationState \<Rightarrow> bool" where
  "is_target_lost now s = (now - last_target_time s > TARGET_LOST_TIMEOUT_SEC)"

definition should_update_max_id :: "real \<Rightarrow> NavigationState \<Rightarrow> bool" where
  "should_update_max_id now s = (now - last_max_id_time s > MAX_ID_TIME_RESET)"

subsection \<open>calculate_control\<close>

text \<open>
  The rotation error of lines 139 to 145: the quotient is taken only when \<open>dx\<close> is not
  zero, and the bare \<^verbatim>\<open>except\<close> turns an exception of the division into 0.
\<close>

definition rotation_error :: "number \<Rightarrow> number \<Rightarrow> xreal" where
  "rotation_error dx dy =
     (if num_val dx \<noteq> 0 then
        (case true_div dx dy of
           Inl e \<Rightarrow> Fin 0
         | Inr q \<Rightarrow> to_degrees (np_arctan q))
      else Fin 0)"

definition marker_dx :: "MarkerInfo \<Rightarrow> number" where
  "marker_dx m = num_map (\<lambda>x. (x - TARGET_X) / TARGET_X) (center_x m)"

definition marker_dy :: "MarkerInfo \<Rightarrow> number" where
  "marker_dy m = num_map (\<lambda>y. (TARGET_Y - y) / TARGET_Y) (center_y m)"

definition clamp :: "int \<Rightarrow> int" where
  "clamp v = max (min v 100) (- 100)"

definition clamp_all :: "ControlValues \<Rightarrow> ControlValues" where
  "clamp_all cv =
     \<lparr>left_right = clamp (left_right cv), forward_backward = clamp (forward_backward cv),
      up_down = clamp (up_down cv), yaw = clamp (yaw cv)\<rparr>"

text \<open>The normal exit: clamp every key, store the dictionary and return it.\<close>

definition finish :: "ControlValues \<Rightarrow> 'p NavigationController \<Rightarrow> ControlValues \<times> 'p NavigationController" where
  "finish cv self = (let c = clamp_all cv in (c, self\<lparr>control_values := c\<rparr>))"

text \<open>
  \<^verbatim>\<open>calculate_control(target_marker, current_height, target_height)\<close>. An exception
  inside the body (here: a PID call or its \<^verbatim>\<open>int\<close> conversion) reaches the outer
  handler, which returns a fresh all-zero dictionary and leaves \<^verbatim>\<open>self.control_values\<close>
  as the body left it.
\<close>

definition calculate_control ::
  "'p pid_call \<Rightarrow> 'p NavigationController \<Rightarrow> MarkerInfo option \<Rightarrow> real \<Rightarrow> real
     \<Rightarrow> ControlValues \<times> 'p NavigationController" where
  "calculate_control pid self target_marker current_height target_height =
     (let cv1 =
            (if current_height > target_height + HEIGHT_TOLERANCE_CM
               then zero_controls\<lparr>up_down := - 20\<rparr>
             else if current_height < target_height - HEIGHT_TOLERANCE_CM
               then zero_controls\<lparr>up_down := 20\<rparr>
             else zero_controls)
      in case target_marker of
           None \<Rightarrow> finish cv1 self
         | Some m \<Rightarrow>
             (let dx = marker_dx m; dy = marker_dy m; rot = rotation_error dx dy
              in if phase (state self) = ALIGNING then
                   (case pid (pid_r self) (xneg rot) of
                      (None, pr) \<Rightarrow>
                        (zero_controls, self\<lparr>pid_r := pr, control_values := cv1\<rparr>)
                    | (Some v, pr) \<Rightarrow> finish (cv1\<lparr>yaw := v\<rparr>) (self\<lparr>pid_r := pr\<rparr>))
                 else
                   (case pid (pid_x self) (Fin (- num_val dx * 100)) of
                      (None, px) \<Rightarrow>
                        (zero_controls, self\<lparr>pid_x := px, control_values := cv1\<rparr>)
                    | (Some vx, px) \<Rightarrow>
                        (case pid (pid_y self) (Fin (- num_val dy * 100)) of
                           (None, py) \<Rightarrow>
                             (zero_controls,
                              self\<lparr>pid_x := px, pid_y := py,
                                   control_values := cv1\<lparr>left_right := vx\<rparr>\<rparr>)
                         | (Some vy, py) \<Rightarrow>
                             finish (cv1\<lparr>left_right := vx, forward_backward := vy\<rparr>)
                                    (self\<lparr>pid_x := px, pid_y := py\<rparr>)))))"

section \<open>Runs of the controller\<close>

text \<open>
  One tick of the main loop as far as the navigation state is concerned: the clock
  reading, the detected markers, the current height and the target height.
\<close>

type_synonym tick = "real \<times> MarkerInfo list \<times> real \<times> real"

fun step :: "tick \<Rightarrow> NavigationState \<Rightarrow> NavigationState" where
  "step (t, ms, h, th) s = snd (update_state t ms h th s)"

fun run :: "tick list \<Rightarrow> NavigationState \<Rightarrow> NavigationState" where
  "run [] s = s"
| "run (k # ks) s = run ks (step k s)"

text \<open>The states a run passes through, the start state first.\<close>

fun trace :: "tick list \<Rightarrow> NavigationState \<Rightarrow> NavigationState list" where
  "trace [] s = [s]"
| "trace (k # ks) s = s # trace ks (step k s)"

section \<open>Sample inputs\<close>

text \<open>
  A marker as \<^verbatim>\<open>detect_markers\<close> builds it (the centre is a pair of numpy scalars), and
  one built from Python floats.
\<close>

definition np_marker :: "int \<Rightarrow> real \<Rightarrow> real \<Rightarrow> real \<Rightarrow> MarkerInfo" where
  "np_marker i x y d = \<lparr>marker_id = i, center_x = NpFloat x, center_y = NpFloat y, distance = d\<rparr>"

definition py_marker :: "int \<Rightarrow> real \<Rightarrow> real \<Rightarrow> real \<Rightarrow> MarkerInfo" where
  "py_marker i x y d = \<lparr>marker_id = i, center_x = PyFloat x, center_y = PyFloat y, distance = d\<rparr>"

text \<open>A navigation state with the given phase, target and reached count.\<close>

definition sample_state :: "NavigationPhase \<Rightarrow> int \<Rightarrow> int \<Rightarrow> NavigationState" where
  "sample_state ph tid rid =
     \<lparr>phase = ph, target_id = tid, reached_id = rid, max_id = 0,
      last_target_time = 0, last_max_id_time = 0\<rparr>"

text \<open>\<^verbatim>\<open>int(x)\<close> on a finite float: truncation towards zero.\<close>

definition py_int :: "real \<Rightarrow> int" where
  "py_int r = (if 0 \<le> r then \<lfloor>r\<rfloor> else \<lceil>r\<rceil>)"

text \<open>
  A sample PID call: a proportional controller with setpoint 0 and no state, which is
  what a PID with \<^verbatim>\<open>Ki = Kd = 0\<close> (the gains of the rotation axis in config.py)
  computes. \<^verbatim>\<open>int\<close> raises on an infinity and on nan.
\<close>

definition p_controller :: "real \<Rightarrow> unit pid_call" where
  "p_controller kp p x =
     (case x of Fin r \<Rightarrow> (Some (py_int (kp * (0 - r))), p) | _ \<Rightarrow> (None, p))"

definition sample_controller :: "NavigationPhase \<Rightarrow> unit NavigationController" where
  "sample_controller ph =
     \<lparr>pid_x = (), pid_y = (), pid_r = (), state = sample_state ph 1 0,
      control_values = zero_controls\<rparr>"

section \<open>Observations on runs\<close>

text \<open>
  The number of forward transitions in a sequence of states: the steps at which the
  target identity moves on to the next marker.
\<close>

fun forward_transitions :: "NavigationState list \<Rightarrow> nat" where
  "forward_transitions (s # s' # rest) =
     (if target_id s' = target_id s + 1 then 1 else 0) + forward_transitions (s' # rest)"
| "forward_transitions _ = 0"

text \<open>The navigation state without its two timestamps.\<close>

definition untimed :: "NavigationState \<Rightarrow> NavigationPhase \<times> int \<times> int \<times> int" where
  "untimed s = (phase s, target_id s, reached_id s, max_id s)"

text \<open>The explicit arguments of a tick: everything but the clock reading.\<close>

fun tick_args :: "tick \<Rightarrow> MarkerInfo list \<times> real \<times> real" where
  "tick_args (t, ms, h, th) = (ms, h, th)"

text \<open>Every field of a command lies between -100 and 100.\<close>

definition in_range :: "ControlValues \<Rightarrow> bool" where
  "in_range c \<longleftrightarrow>
     - 100 \<le> left_right c \<and> left_right c \<le> 100
     \<and> - 100 \<le> forward_backward c \<and> forward_backward c \<le> 100
     \<and> - 100 \<le> up_down c \<and> up_down c \<le> 100
     \<and> - 100 \<le> yaw c \<and> yaw c \<le> 100"

section \<open>One call of update_state, phase by phase\<close>

lemma update_max_id_keeps [simp]:
  "phase (update_max_id t ms s) = phase s"
  "target_id (update_max_id t ms s) = target_id s"
  "reached_id (update_max_id t ms s) = reached_id s"
  "last_target_time (update_max_id t ms s) = last_target_time s"
  by (simp_all add: update_max_id_def Let_def split: list.split)

lemma fold_max_eq_Max: "fold max xs (x::int) = Max (set (x # xs))"
  by (rule Max.set_eq_fold [symmetric])

lemma update_max_id_mono: "max_id s \<le> max_id (update_max_id t ms s)"
  by (simp add: update_max_id_def Let_def split: list.split)

lemma update_state_fst: "fst (update_state t ms h th s) = True"
  by (simp add: update_state_def Let_def)

lemma update_state_TAKEOFF:
  assumes "phase s = TAKEOFF"
  shows "phase (snd (update_state t ms h th s)) =
           (if \<bar>h - th\<bar> \<le> HEIGHT_TOLERANCE_CM then ALIGNING else TAKEOFF)"
    and "target_id (snd (update_state t ms h th s)) = target_id s"
    and "reached_id (snd (update_state t ms h th s)) = reached_id s"
  using assms by (simp_all add: update_state_def Let_def split: option.split)

lemma update_state_ALIGNING:
  assumes "phase s = ALIGNING"
  shows "phase (snd (update_state t ms h th s)) =
           (case find_target ms (target_id s) of
              None \<Rightarrow> ALIGNING
            | Some m \<Rightarrow> if distance m \<le> THRESHOLD then APPROACHING else ALIGNING)"
    and "target_id (snd (update_state t ms h th s)) = target_id s"
    and "reached_id (snd (update_state t ms h th s)) = reached_id s"
  using assms by (simp_all add: update_state_def Let_def split: option.split)

lemma update_state_APPROACHING:
  assumes "phase s = APPROACHING"
  shows "snd (update_state t ms h th s) =
           (let s1 = update_max_id t ms s in
            case find_target ms (target_id s) of
              None \<Rightarrow> s1
            | Some m \<Rightarrow>
                if distance m \<le> THRESHOLD then
                  (if target_id s = 0 then s1\<lparr>last_target_time := t, phase := LANDING\<rparr>
                   else s1\<lparr>last_target_time := t, reached_id := reached_id s + 1,
                           target_id := target_id s + 1\<rparr>)
                else s1\<lparr>last_target_time := t\<rparr>)"
  using assms by (simp add: update_state_def Let_def split: option.split)

lemma update_state_LANDING:
  assumes "phase s = LANDING"
  shows "phase (snd (update_state t ms h th s)) = LANDING"
    and "target_id (snd (update_state t ms h th s)) = target_id s"
    and "reached_id (snd (update_state t ms h th s)) = reached_id s"
  using assms by (simp_all add: update_state_def Let_def split: option.split)

lemma step_not_TAKEOFF: "phase s \<noteq> TAKEOFF \<Longrightarrow> phase (step k s) \<noteq> TAKEOFF"
  by (cases k; cases "phase s")
     (auto simp: update_state_ALIGNING update_state_APPROACHING update_state_LANDING Let_def
           split: option.split)

lemma run_not_TAKEOFF: "phase s \<noteq> TAKEOFF \<Longrightarrow> phase (run ks s) \<noteq> TAKEOFF"
  by (induction ks arbitrary: s) (simp_all add: step_not_TAKEOFF)



section \<open>Leaving TAKEOFF\<close>

text \<open>
  Claim C7. A call of \<^verbatim>\<open>update_state\<close> in phase TAKEOFF ends in phase ALIGNING exactly
  when the current height is within the height tolerance of the target height on that
  call. From a state whose phase is not TAKEOFF, no sequence of calls leads back to
  TAKEOFF.
\<close>

theorem takeoff_transition:
  "(phase s = TAKEOFF \<longrightarrow>
      (phase (snd (update_state t ms h th s)) = ALIGNING
         \<longleftrightarrow> \<bar>h - th\<bar> \<le> HEIGHT_TOLERANCE_CM))
   \<and> (phase s \<noteq> TAKEOFF \<longrightarrow> phase (run ks s) \<noteq> TAKEOFF)"
  by (simp add: update_state_TAKEOFF run_not_TAKEOFF)

theorem takeoff_transition_witness:
  "phase (init_state 0 0) = TAKEOFF
   \<and> \<bar>(148::real) - 150\<bar> \<le> HEIGHT_TOLERANCE_CM
   \<and> phase (snd (update_state 1 [] 148 150 (init_state 0 0))) = ALIGNING
   \<and> phase (snd (update_state 1 [] 148 150 (init_state 0 0))) \<noteq> TAKEOFF
   \<and> phase (run [(2, [], 100, 150), (3, [np_marker 1 160 180 12], 100, 150)]
               (snd (update_state 1 [] 148 150 (init_state 0 0)))) \<noteq> TAKEOFF"
proof -
  let ?s = "init_state 0 0"
  let ?s1 = "snd (update_state 1 [] 148 150 ?s)"
  have a: "phase ?s = TAKEOFF" by (simp add: init_state_def)
  have b: "\<bar>(148::real) - 150\<bar> \<le> HEIGHT_TOLERANCE_CM" by (simp add: HEIGHT_TOLERANCE_CM_def)
  from takeoff_transition [of ?s 1 "[]" 148 150 "[]"] a b
  have c: "phase ?s1 = ALIGNING" by simp
  then have d: "phase ?s1 \<noteq> TAKEOFF" by simp
  from takeoff_transition
         [of ?s1 0 "[]" 0 0 "[(2, [], 100, 150), (3, [np_marker 1 160 180 12], 100, 150)]"] d
  show ?thesis using a b c by simp
qed

lemma find_target_simps:
  "find_target [] k = None"
  "find_target (m # ms) k = (if marker_id m = k then Some m else find_target ms k)"
  by (simp_all add: find_target_def)

lemma find_target_None: "find_target ms k = None \<longleftrightarrow> (\<forall>m \<in> set ms. marker_id m \<noteq> k)"
  by (auto simp: find_target_def find_None_iff)

lemma find_target_distinct:
  "distinct (map marker_id ms) \<Longrightarrow>
     find_target ms k = Some m \<longleftrightarrow> m \<in> set ms \<and> marker_id m = k"
  by (induction ms) (auto simp: find_target_simps)

lemma update_state_last_target_time:
  "last_target_time (snd (update_state t ms h th s)) =
     (case find_target ms (target_id s) of None \<Rightarrow> last_target_time s | Some m \<Rightarrow> t)"
  by (cases "phase s"; cases "find_target ms (target_id s)")
     (auto simp: update_state_def Let_def)

lemma update_state_max_id:
  "max_id (snd (update_state t ms h th s)) = max_id (update_max_id t ms s)"
  "last_max_id_time (snd (update_state t ms h th s)) = last_max_id_time (update_max_id t ms s)"
  by (simp_all add: update_state_def Let_def split: option.split)

section \<open>The target identity along a mission\<close>

lemma step_invariant:
  assumes "target_id s = reached_id s + 1" "0 \<le> reached_id s" "phase s \<noteq> LANDING"
  shows "target_id (step k s) = reached_id (step k s) + 1 \<and> 0 \<le> reached_id (step k s)
         \<and> phase (step k s) \<noteq> LANDING"
  using assms
  by (cases k; cases "phase s")
     (auto simp: update_state_TAKEOFF update_state_ALIGNING update_state_APPROACHING Let_def
           split: option.split)

lemma run_invariant:
  assumes "target_id s = reached_id s + 1" "0 \<le> reached_id s" "phase s \<noteq> LANDING"
  shows "target_id (run ks s) = reached_id (run ks s) + 1 \<and> 0 \<le> reached_id (run ks s)
         \<and> phase (run ks s) \<noteq> LANDING"
  using assms
proof (induction ks arbitrary: s)
  case Nil
  then show ?case by simp
next
  case (Cons k ks)
  from step_invariant [OF Cons.prems, of k] Cons.IH [of "step k s"]
  show ?case by simp
qed

text \<open>
  Claim C2. In every state reached from the initial state (phase TAKEOFF, target_id 1,
  reached_id 0) by a sequence of \<^verbatim>\<open>update_state\<close> calls, target_id is reached_id + 1,
  so target_id is at least 1 and never the landing identity 0, and the phase is never
  LANDING.
\<close>

theorem target_follows_reached:
  "target_id (run ks (init_state t1 t2)) = reached_id (run ks (init_state t1 t2)) + 1
   \<and> 1 \<le> target_id (run ks (init_state t1 t2))
   \<and> target_id (run ks (init_state t1 t2)) \<noteq> 0
   \<and> phase (run ks (init_state t1 t2)) \<noteq> LANDING"
proof -
  have "target_id (init_state t1 t2) = reached_id (init_state t1 t2) + 1"
    and "0 \<le> reached_id (init_state t1 t2)" and "phase (init_state t1 t2) \<noteq> LANDING"
    by (simp_all add: init_state_def)
  from run_invariant [OF this, of ks] show ?thesis by simp
qed

section \<open>Reaching a marker in APPROACHING\<close>



section \<open>Progress of the tracker\<close>

lemma step_cases:
  "(target_id (step k s) = target_id s \<and> reached_id (step k s) = reached_id s)
   \<or> (target_id (step k s) = target_id s + 1 \<and> reached_id (step k s) = reached_id s + 1)"
  by (cases k; cases "phase s")
     (auto simp: update_state_TAKEOFF update_state_ALIGNING update_state_APPROACHING
                 update_state_LANDING Let_def split: option.split)

lemma step_max_id_mono: "max_id s \<le> max_id (step k s)"
  by (cases k) (simp add: update_state_max_id update_max_id_mono)

lemma step_target_id_mono: "target_id s \<le> target_id (step k s)"
  using step_cases [of k s] by auto

lemma trace_Cons: "trace ks s = s # tl (trace ks s)"
  by (cases ks) simp_all

lemma sorted_trace:
  assumes mono: "\<And>k s. f s \<le> f (step k s)"
  shows "sorted (map (f :: NavigationState \<Rightarrow> int) (trace ks s))"
proof (induction ks arbitrary: s)
  case Nil
  then show ?case by simp
next
  case (Cons k ks)
  have "sorted (map f (trace ks (step k s)))" by (rule Cons.IH)
  moreover have "trace ks (step k s) = step k s # tl (trace ks (step k s))"
    by (rule trace_Cons)
  ultimately have "sorted (f (step k s) # map f (tl (trace ks (step k s))))"
    by (metis list.simps(9))
  then have "\<forall>y \<in> set (map f (trace ks (step k s))). f (step k s) \<le> y"
    by (metis \<open>trace ks (step k s) = step k s # tl (trace ks (step k s))\<close> list.simps(9)
          order_refl set_ConsD sorted_simps(2))
  with mono [of s k] have "\<forall>y \<in> set (map f (trace ks (step k s))). f s \<le> y"
    by (meson order_trans)
  with \<open>sorted (map f (trace ks (step k s)))\<close> show ?case by simp
qed

lemma reached_counts_forward:
  "reached_id (run ks s) = reached_id s + int (forward_transitions (trace ks s))"
proof (induction ks arbitrary: s)
  case Nil
  then show ?case by simp
next
  case (Cons k ks)
  obtain r where r: "trace ks (step k s) = step k s # r"
    using trace_Cons by blast
  have "forward_transitions (trace (k # ks) s) =
          (if target_id (step k s) = target_id s + 1 then 1 else 0)
          + forward_transitions (trace ks (step k s))"
    by (simp add: r)
  moreover have "reached_id (step k s) = reached_id s
                   + (if target_id (step k s) = target_id s + 1 then 1 else 0)"
    using step_cases [of k s] by auto
  ultimately show ?case using Cons.IH [of "step k s"] by simp
qed

lemma update_max_id_refresh:
  assumes "ms \<noteq> []" "max_id s < Max (marker_id ` set ms)"
  shows "max_id (update_max_id t ms s) = Max (marker_id ` set ms)"
    and "last_max_id_time (update_max_id t ms s) = t"
proof -
  obtain m rest where ms: "ms = m # rest" using assms(1) by (cases ms) auto
  have "fold max (map marker_id rest) (marker_id m) = Max (marker_id ` set ms)"
    by (simp add: fold_max_eq_Max ms)
  with assms(2) show "max_id (update_max_id t ms s) = Max (marker_id ` set ms)"
    and "last_max_id_time (update_max_id t ms s) = t"
    by (simp_all add: update_max_id_def ms)
qed

text \<open>
  Claim C5. Along every sequence of \<^verbatim>\<open>update_state\<close> calls from the initial state,
  target_id never decreases and max_id never decreases, and reached_id is the number of
  forward transitions that have occurred. A call with a non-empty marker list whose
  largest identity exceeds max_id sets max_id to that identity and sets the max-id
  timestamp to the clock reading of the call.
\<close>

theorem tracker_progress:
  "sorted (map target_id (trace ks (init_state t1 t2)))
   \<and> sorted (map max_id (trace ks (init_state t1 t2)))
   \<and> reached_id (run ks (init_state t1 t2)) = int (forward_transitions (trace ks (init_state t1 t2)))
   \<and> (ms \<noteq> [] \<and> max_id s < Max (marker_id ` set ms) \<longrightarrow>
        max_id (snd (update_state t ms h th s)) = Max (marker_id ` set ms)
        \<and> last_max_id_time (snd (update_state t ms h th s)) = t)"
proof -
  have "sorted (map target_id (trace ks (init_state t1 t2)))"
    by (rule sorted_trace) (rule step_target_id_mono)
  moreover have "sorted (map max_id (trace ks (init_state t1 t2)))"
    by (rule sorted_trace) (rule step_max_id_mono)
  moreover have "reached_id (run ks (init_state t1 t2))
                   = int (forward_transitions (trace ks (init_state t1 t2)))"
    by (simp add: reached_counts_forward init_state_def)
  ultimately show ?thesis
    by (simp add: update_state_max_id update_max_id_refresh)
qed

theorem tracker_progress_witness:
  "[np_marker 3 100 192 60, np_marker 5 160 92 100] \<noteq> []
   \<and> max_id (init_state 0 0) < Max (marker_id ` set [np_marker 3 100 192 60, np_marker 5 160 92 100])
   \<and> max_id (snd (update_state 4 [np_marker 3 100 192 60, np_marker 5 160 92 100] 150 150
                    (init_state 0 0))) = 5
   \<and> last_max_id_time (snd (update_state 4 [np_marker 3 100 192 60, np_marker 5 160 92 100] 150 150
                    (init_state 0 0))) = 4
   \<and> reached_id (run [(1, [], 150, 150), (2, [np_marker 1 157 188 5], 150, 150),
                      (3, [np_marker 1 157 188 5], 150, 150)] (init_state 0 0))
       = int (forward_transitions (trace [(1, [], 150, 150), (2, [np_marker 1 157 188 5], 150, 150),
                      (3, [np_marker 1 157 188 5], 150, 150)] (init_state 0 0)))"
proof -
  let ?ms = "[np_marker 3 100 192 60, np_marker 5 160 92 100]"
  have a: "?ms \<noteq> []" by simp
  have m: "Max (marker_id ` set ?ms) = 5" by (simp add: np_marker_def)
  have b: "max_id (init_state 0 0) < Max (marker_id ` set ?ms)"
    by (simp only: m) (simp add: init_state_def)
  from tracker_progress [of "[(1, [], 150, 150), (2, [np_marker 1 157 188 5], 150, 150),
                      (3, [np_marker 1 157 188 5], 150, 150)]" 0 0 ?ms "init_state 0 0" 4 150 150] a b
  show ?thesis by (simp only: m) blast
qed

section \<open>Leaving ALIGNING\<close>

text \<open>
  Claim C8, as amended. A call of \<^verbatim>\<open>update_state\<close> in phase ALIGNING ends in phase
  APPROACHING exactly when the first marker of the list whose identity is target_id has
  a distance of at most the threshold. When the identities in the list are pairwise
  distinct this is: exactly when the list contains a marker with identity target_id and
  distance at most the threshold. An empty list, or a list with markers of other
  identities only, leaves the phase at ALIGNING.
\<close>

theorem aligning_transition:
  "phase s = ALIGNING \<longrightarrow>
     (phase (snd (update_state t ms h th s)) = APPROACHING
        \<longleftrightarrow> (\<exists>m. find_target ms (target_id s) = Some m \<and> distance m \<le> THRESHOLD))
     \<and> (distinct (map marker_id ms) \<longrightarrow>
          (phase (snd (update_state t ms h th s)) = APPROACHING
             \<longleftrightarrow> (\<exists>m \<in> set ms. marker_id m = target_id s \<and> distance m \<le> THRESHOLD)))
     \<and> ((\<forall>m \<in> set ms. marker_id m \<noteq> target_id s) \<longrightarrow>
          phase (snd (update_state t ms h th s)) = ALIGNING)"
proof (intro impI conjI)
  assume al: "phase s = ALIGNING"
  show first: "phase (snd (update_state t ms h th s)) = APPROACHING
        \<longleftrightarrow> (\<exists>m. find_target ms (target_id s) = Some m \<and> distance m \<le> THRESHOLD)"
    by (simp add: update_state_ALIGNING [OF al] split: option.split)
  show "phase (snd (update_state t ms h th s)) = APPROACHING
             \<longleftrightarrow> (\<exists>m \<in> set ms. marker_id m = target_id s \<and> distance m \<le> THRESHOLD)"
    if "distinct (map marker_id ms)"
    using first find_target_distinct [OF that] by blast
  show "phase (snd (update_state t ms h th s)) = ALIGNING"
    if "\<forall>m \<in> set ms. marker_id m \<noteq> target_id s"
  proof -
    from that have "find_target ms (target_id s) = None" by (simp add: find_target_None)
    then show ?thesis by (simp add: update_state_ALIGNING [OF al])
  qed
qed

theorem aligning_transition_witness:
  "phase (sample_state ALIGNING 1 0) = ALIGNING
   \<and> distinct (map marker_id [np_marker 2 100 192 60, np_marker 1 157 188 5])
   \<and> np_marker 1 157 188 5 \<in> set [np_marker 2 100 192 60, np_marker 1 157 188 5]
   \<and> marker_id (np_marker 1 157 188 5) = target_id (sample_state ALIGNING 1 0)
   \<and> distance (np_marker 1 157 188 5) \<le> THRESHOLD
   \<and> phase (snd (update_state 3 [np_marker 2 100 192 60, np_marker 1 157 188 5] 150 150
                   (sample_state ALIGNING 1 0))) = APPROACHING
   \<and> marker_id (np_marker 2 157 188 5) \<noteq> target_id (sample_state ALIGNING 1 0)
   \<and> phase (snd (update_state 3 [np_marker 2 157 188 5] 150 150 (sample_state ALIGNING 1 0)))
       = ALIGNING
   \<and> phase (snd (update_state 3 [] 150 150 (sample_state ALIGNING 1 0))) = ALIGNING"
proof -
  let ?s = "sample_state ALIGNING 1 0"
  let ?ms = "[np_marker 2 100 192 60, np_marker 1 157 188 5]"
  have al: "phase ?s = ALIGNING" by (simp add: sample_state_def)
  have d: "distinct (map marker_id ?ms)" by (simp add: np_marker_def)
  have e: "np_marker 1 157 188 5 \<in> set ?ms
           \<and> marker_id (np_marker 1 157 188 5) = target_id ?s
           \<and> distance (np_marker 1 157 188 5) \<le> THRESHOLD"
    by (simp add: np_marker_def sample_state_def THRESHOLD_def)
  have o: "\<forall>m \<in> set [np_marker 2 157 188 5]. marker_id m \<noteq> target_id ?s"
    by (simp add: np_marker_def sample_state_def)
  have n: "\<forall>m \<in> set []. marker_id m \<noteq> target_id ?s" by simp
  from aligning_transition [of ?s 3 ?ms 150 150] al d e
  have 1: "phase (snd (update_state 3 ?ms 150 150 ?s)) = APPROACHING" by blast
  from aligning_transition [of ?s 3 "[np_marker 2 157 188 5]" 150 150] al o
  have 2: "phase (snd (update_state 3 [np_marker 2 157 188 5] 150 150 ?s)) = ALIGNING" by blast
  from aligning_transition [of ?s 3 "[]" 150 150] al n
  have 3: "phase (snd (update_state 3 [] 150 150 ?s)) = ALIGNING" by blast
  from o have o': "marker_id (np_marker 2 157 188 5) \<noteq> target_id ?s" by simp
  from al d e o' 1 2 3 show ?thesis by blast
qed

text \<open>
  The claim as first stated speaks of any marker of the list with the target identity.
  The lookup stops at the first one: with two detections of identity 1, the first far
  away and the second within the threshold, the phase stays ALIGNING.
\<close>

theorem aligning_first_match_counterexample:
  "phase (snd (update_state 1 [] 150 150 (init_state 0 0))) = ALIGNING
   \<and> np_marker 1 157 188 5 \<in> set [np_marker 1 160 140 52, np_marker 1 157 188 5]
   \<and> marker_id (np_marker 1 157 188 5)
       = target_id (snd (update_state 1 [] 150 150 (init_state 0 0)))
   \<and> distance (np_marker 1 157 188 5) \<le> THRESHOLD
   \<and> phase (snd (update_state 2 [np_marker 1 160 140 52, np_marker 1 157 188 5] 150 150
                   (snd (update_state 1 [] 150 150 (init_state 0 0))))) = ALIGNING"
  by (simp add: update_state_def update_max_id_def find_target_def init_state_def np_marker_def
        HEIGHT_TOLERANCE_CM_def THRESHOLD_def)

section \<open>Losing the target\<close>

text \<open>
  Claim C10. \<^verbatim>\<open>is_target_lost\<close> is true exactly when the time elapsed since the
  recorded last sighting of the target strictly exceeds the target-lost timeout; it is
  false at the timeout itself and one unit below it. The recorded sighting is the clock
  reading of the latest \<^verbatim>\<open>update_state\<close> call whose marker list held the target
  identity; a call without the target leaves it as it was.
\<close>

theorem target_lost_after_timeout:
  "(is_target_lost now s \<longleftrightarrow> TARGET_LOST_TIMEOUT_SEC < now - last_target_time s)
   \<and> \<not> is_target_lost (last_target_time s + TARGET_LOST_TIMEOUT_SEC) s
   \<and> \<not> is_target_lost (last_target_time s + TARGET_LOST_TIMEOUT_SEC - 1) s
   \<and> is_target_lost (last_target_time s + TARGET_LOST_TIMEOUT_SEC + 1) s
   \<and> (find_target ms (target_id s) \<noteq> None \<longrightarrow>
        (is_target_lost now (snd (update_state t ms h th s))
           \<longleftrightarrow> TARGET_LOST_TIMEOUT_SEC < now - t))
   \<and> (find_target ms (target_id s) = None \<longrightarrow>
        (is_target_lost now (snd (update_state t ms h th s)) \<longleftrightarrow> is_target_lost now s))"
  by (auto simp: is_target_lost_def update_state_last_target_time)

theorem target_lost_after_timeout_witness:
  "find_target [np_marker 1 157 188 5] (target_id (init_state 0 0)) \<noteq> None
   \<and> is_target_lost 14 (snd (update_state 10 [np_marker 1 157 188 5] 150 150 (init_state 0 0)))
   \<and> \<not> is_target_lost 13 (snd (update_state 10 [np_marker 1 157 188 5] 150 150 (init_state 0 0)))
   \<and> \<not> is_target_lost 12 (snd (update_state 10 [np_marker 1 157 188 5] 150 150 (init_state 0 0)))
   \<and> find_target [np_marker 2 157 188 5] (target_id (init_state 0 0)) = None
   \<and> is_target_lost 12 (snd (update_state 10 [np_marker 2 157 188 5] 150 150 (init_state 0 0)))
   \<and> is_target_lost 12 (init_state 0 0)"
proof -
  let ?s = "init_state 0 0"
  have f: "find_target [np_marker 1 157 188 5] (target_id ?s) \<noteq> None"
    and g: "find_target [np_marker 2 157 188 5] (target_id ?s) = None"
    by (simp_all add: find_target_def init_state_def np_marker_def)
  have l: "is_target_lost 12 ?s"
    by (simp add: is_target_lost_def init_state_def TARGET_LOST_TIMEOUT_SEC_def)
  have t: "TARGET_LOST_TIMEOUT_SEC < 14 - (10::real)" "\<not> TARGET_LOST_TIMEOUT_SEC < 13 - (10::real)"
    "\<not> TARGET_LOST_TIMEOUT_SEC < 12 - (10::real)"
    by (simp_all add: TARGET_LOST_TIMEOUT_SEC_def)
  from target_lost_after_timeout [of 14 ?s "[np_marker 1 157 188 5]" 10 150 150] f t
  have 1: "is_target_lost 14 (snd (update_state 10 [np_marker 1 157 188 5] 150 150 ?s))" by blast
  from target_lost_after_timeout [of 13 ?s "[np_marker 1 157 188 5]" 10 150 150] f t
  have 2: "\<not> is_target_lost 13 (snd (update_state 10 [np_marker 1 157 188 5] 150 150 ?s))" by blast
  from target_lost_after_timeout [of 12 ?s "[np_marker 1 157 188 5]" 10 150 150] f t
  have 3: "\<not> is_target_lost 12 (snd (update_state 10 [np_marker 1 157 188 5] 150 150 ?s))" by blast
  from target_lost_after_timeout [of 12 ?s "[np_marker 2 157 188 5]" 10 150 150] g l
  have 4: "is_target_lost 12 (snd (update_state 10 [np_marker 2 157 188 5] 150 150 ?s))" by blast
  from f g l 1 2 3 4 show ?thesis by blast
qed

section \<open>The clock\<close>

lemma update_max_id_untimed:
  "max_id s = max_id s' \<Longrightarrow> max_id (update_max_id t ms s) = max_id (update_max_id t' ms s')"
  by (simp add: update_max_id_def Let_def split: list.split)

lemma update_state_untimed:
  assumes "untimed s = untimed s'"
  shows "untimed (snd (update_state t ms h th s)) = untimed (snd (update_state t' ms h th s'))"
proof -
  from assms have eq: "phase s = phase s'" "target_id s = target_id s'"
    "reached_id s = reached_id s'" "max_id s = max_id s'"
    by (simp_all add: untimed_def)
  have m: "max_id (snd (update_state t ms h th s)) = max_id (snd (update_state t' ms h th s'))"
    by (simp add: update_state_max_id update_max_id_untimed [OF eq(4)])
  have "phase (snd (update_state t ms h th s)) = phase (snd (update_state t' ms h th s'))
        \<and> target_id (snd (update_state t ms h th s)) = target_id (snd (update_state t' ms h th s'))
        \<and> reached_id (snd (update_state t ms h th s)) = reached_id (snd (update_state t' ms h th s'))"
  proof (cases "phase s")
    case TAKEOFF
    with eq have "phase s' = TAKEOFF" by simp
    with TAKEOFF eq show ?thesis by (simp add: update_state_TAKEOFF)
  next
    case ALIGNING
    with eq have "phase s' = ALIGNING" by simp
    with ALIGNING eq show ?thesis by (simp add: update_state_ALIGNING)
  next
    case APPROACHING
    with eq have "phase s' = APPROACHING" by simp
    with APPROACHING eq show ?thesis
      by (simp add: update_state_APPROACHING Let_def split: option.split)
  next
    case LANDING
    with eq have "phase s' = LANDING" by simp
    with LANDING eq show ?thesis by (simp add: update_state_LANDING)
  qed
  with m show ?thesis by (simp add: untimed_def)
qed

lemma run_untimed:
  "map tick_args ks = map tick_args ks' \<Longrightarrow> untimed s = untimed s' \<Longrightarrow>
     untimed (run ks s) = untimed (run ks' s')"
proof (induction ks arbitrary: ks' s s')
  case Nil
  then show ?case by simp
next
  case (Cons k ks)
  then obtain k' ks1 where ks': "ks' = k' # ks1" by (cases ks') auto
  obtain t ms h th where k: "k = (t, ms, h, th)" by (cases k) auto
  obtain t' ms' h' th' where k': "k' = (t', ms', h', th')" by (cases k') auto
  from Cons.prems(1) have args: "ms' = ms" "h' = h" "th' = th"
    and rest: "map tick_args ks = map tick_args ks1"
    by (simp_all add: ks' k k')
  have "untimed (step k s) = untimed (step k' s')"
    using update_state_untimed [OF Cons.prems(2)] by (simp add: k k' args)
  from Cons.IH [OF rest this] show ?case by (simp add: ks')
qed

lemma ticks_determined:
  "map fst ks = map fst ks' \<Longrightarrow> map tick_args ks = map tick_args ks' \<Longrightarrow> ks = (ks' :: tick list)"
proof (induction ks arbitrary: ks')
  case Nil
  then show ?case by simp
next
  case (Cons k ks)
  then obtain k' ks1 where ks': "ks' = k' # ks1" by (cases ks') auto
  obtain t ms h th where k: "k = (t, ms, h, th)" by (cases k) auto
  obtain t' ms' h' th' where k': "k' = (t', ms', h', th')" by (cases k') auto
  from Cons.prems have "k = k'" by (simp add: ks' k k')
  moreover from Cons.prems have "ks = ks1" by (intro Cons.IH) (simp_all add: ks')
  ultimately show ?case by (simp add: ks')
qed

text \<open>
  Claim C4, as amended. \<^verbatim>\<open>update_state\<close>, \<^verbatim>\<open>is_target_lost\<close> and
  \<^verbatim>\<open>should_update_max_id\<close> take no timestamp; each reads the clock itself and is a
  function of its explicit arguments, the prior state and that clock reading. Two runs
  with the same argument sequences reach the same phase, target_id, reached_id and
  max_id whatever the clock readings were, and \<^verbatim>\<open>update_state\<close> returns the same
  boolean. With the same clock readings as well, the two runs reach the same state and
  the two queries give the same answers.
\<close>

theorem clock_only_in_timestamps:
  "(map tick_args ks = map tick_args ks' \<longrightarrow> untimed (run ks s) = untimed (run ks' s))
   \<and> fst (update_state t ms h th s) = fst (update_state t' ms h th s)
   \<and> (map tick_args ks = map tick_args ks' \<and> map fst ks = map fst ks' \<longrightarrow>
        run ks s = run ks' s
        \<and> is_target_lost now (run ks s) = is_target_lost now (run ks' s)
        \<and> should_update_max_id now (run ks s) = should_update_max_id now (run ks' s))"
proof (intro conjI impI)
  show "untimed (run ks s) = untimed (run ks' s)" if "map tick_args ks = map tick_args ks'"
    using that by (rule run_untimed) simp
  show "fst (update_state t ms h th s) = fst (update_state t' ms h th s)"
    by (simp add: update_state_fst)
  assume "map tick_args ks = map tick_args ks' \<and> map fst ks = map fst ks'"
  then have eq: "ks = ks'" by (simp add: ticks_determined)
  then show "run ks s = run ks' s"
    and "is_target_lost now (run ks s) = is_target_lost now (run ks' s)"
    and "should_update_max_id now (run ks s) = should_update_max_id now (run ks' s)"
    by simp_all
qed

theorem clock_only_in_timestamps_witness:
  "map tick_args [(1, [], 150, 150), (2, [np_marker 1 157 188 5], 150, 150)]
     = map tick_args [(10, [], 150, 150), (25, [np_marker 1 157 188 5], 150, 150)]
   \<and> untimed (run [(1, [], 150, 150), (2, [np_marker 1 157 188 5], 150, 150)] (init_state 0 0))
     = untimed (run [(10, [], 150, 150), (25, [np_marker 1 157 188 5], 150, 150)] (init_state 0 0))
   \<and> untimed (run [(10, [], 150, 150), (25, [np_marker 1 157 188 5], 150, 150)] (init_state 0 0))
     = (APPROACHING, 1, 0, 1)
   \<and> last_target_time (run [(1, [], 150, 150), (2, [np_marker 1 157 188 5], 150, 150)] (init_state 0 0)) = 2
   \<and> last_target_time (run [(10, [], 150, 150), (25, [np_marker 1 157 188 5], 150, 150)] (init_state 0 0)) = 25
   \<and> map fst [(1::real, [] :: MarkerInfo list, 150::real, 150::real)] = map fst [(1::real, [] :: MarkerInfo list, 150::real, 150::real)]
   \<and> run [(1, [], 150, 150)] (init_state 0 0) = run [(1, [], 150, 150)] (init_state 0 0)"
proof -
  let ?ks = "[(1, [], 150, 150), (2, [np_marker 1 157 188 5], 150, 150)]"
  let ?ks' = "[(10, [], 150, 150), (25, [np_marker 1 157 188 5], 150, 150)]"
  let ?k1 = "[(1::real, [] :: MarkerInfo list, 150::real, 150::real)]"
  have a: "map tick_args ?ks = map tick_args ?ks'" by simp
  from clock_only_in_timestamps [of ?ks ?ks' "init_state 0 0" 0 "[]" 0 0 0 0] a
  have b: "untimed (run ?ks (init_state 0 0)) = untimed (run ?ks' (init_state 0 0))"
    by blast
  have c: "untimed (run ?ks' (init_state 0 0)) = (APPROACHING, 1, 0, 1)"
    and d: "last_target_time (run ?ks (init_state 0 0)) = 2"
    and e: "last_target_time (run ?ks' (init_state 0 0)) = 25"
    by (simp_all add: untimed_def update_state_def update_max_id_def find_target_def
          init_state_def np_marker_def HEIGHT_TOLERANCE_CM_def THRESHOLD_def)
  have f: "map tick_args ?k1 = map tick_args ?k1 \<and> map fst ?k1 = map fst ?k1" by simp
  from clock_only_in_timestamps [of ?k1 ?k1 "init_state 0 0" 0 "[]" 0 0 0 0] f
  have g: "run ?k1 (init_state 0 0) = run ?k1 (init_state 0 0)" by blast
  from a b c d e f g show ?thesis by blast
qed

text \<open>
  The claim as first stated takes the explicit arguments and the prior state to
  determine the result. The same call on the same state stores a different timestamp
  when the clock reads 5 than when it reads 7, and the two queries change their answer
  on one and the same state as the clock advances.
\<close>

theorem clock_read_internally_counterexample:
  "tick_args (5, [np_marker 1 157 188 5], 150, 150) = tick_args (7, [np_marker 1 157 188 5], 150, 150)
   \<and> last_target_time (snd (update_state 5 [np_marker 1 157 188 5] 150 150 (init_state 0 0))) = 5
   \<and> last_target_time (snd (update_state 7 [np_marker 1 157 188 5] 150 150 (init_state 0 0))) = 7
   \<and> snd (update_state 5 [np_marker 1 157 188 5] 150 150 (init_state 0 0))
       \<noteq> snd (update_state 7 [np_marker 1 157 188 5] 150 150 (init_state 0 0))
   \<and> \<not> is_target_lost 1 (init_state 0 0) \<and> is_target_lost 4 (init_state 0 0)
   \<and> \<not> should_update_max_id 1 (init_state 0 0) \<and> should_update_max_id 6 (init_state 0 0)"
proof -
  have 5: "last_target_time (snd (update_state 5 [np_marker 1 157 188 5] 150 150 (init_state 0 0))) = 5"
    and 7: "last_target_time (snd (update_state 7 [np_marker 1 157 188 5] 150 150 (init_state 0 0))) = 7"
    by (simp_all add: update_state_last_target_time find_target_def init_state_def np_marker_def)
  have "snd (update_state 5 [np_marker 1 157 188 5] 150 150 (init_state 0 0))
       \<noteq> snd (update_state 7 [np_marker 1 157 188 5] 150 150 (init_state 0 0))"
  proof
    assume "snd (update_state 5 [np_marker 1 157 188 5] 150 150 (init_state 0 0))
       = snd (update_state 7 [np_marker 1 157 188 5] 150 150 (init_state 0 0))"
    then have "last_target_time (snd (update_state 5 [np_marker 1 157 188 5] 150 150 (init_state 0 0)))
       = last_target_time (snd (update_state 7 [np_marker 1 157 188 5] 150 150 (init_state 0 0)))"
      by simp
    with 5 7 show False by simp
  qed
  moreover have "\<not> is_target_lost 1 (init_state 0 0) \<and> is_target_lost 4 (init_state 0 0)
   \<and> \<not> should_update_max_id 1 (init_state 0 0) \<and> should_update_max_id 6 (init_state 0 0)"
    by (simp add: is_target_lost_def should_update_max_id_def init_state_def
          TARGET_LOST_TIMEOUT_SEC_def MAX_ID_TIME_RESET_def)
  ultimately show ?thesis using 5 7 by simp
qed

section \<open>The command of calculate_control\<close>

lemma clamp_bounds: "- 100 \<le> clamp v \<and> clamp v \<le> 100"
  by (simp add: clamp_def)

lemma finish_bounds:
  "- 100 \<le> left_right (fst (finish cv self)) \<and> left_right (fst (finish cv self)) \<le> 100
   \<and> - 100 \<le> forward_backward (fst (finish cv self)) \<and> forward_backward (fst (finish cv self)) \<le> 100
   \<and> - 100 \<le> up_down (fst (finish cv self)) \<and> up_down (fst (finish cv self)) \<le> 100
   \<and> - 100 \<le> yaw (fst (finish cv self)) \<and> yaw (fst (finish cv self)) \<le> 100"
  by (simp add: finish_def clamp_all_def clamp_bounds Let_def)

lemma in_range_finish: "in_range (fst (finish cv self))"
  using finish_bounds [of cv self] by (simp add: in_range_def)

lemma in_range_zero: "in_range zero_controls"
  by (simp add: in_range_def zero_controls_def)

lemma calculate_control_in_range:
  "in_range (fst (calculate_control pid self target_marker current_height target_height))"
  by (simp add: calculate_control_def Let_def in_range_finish in_range_zero
           split: option.split prod.split)

text \<open>
  Claim C1. Whatever the phase, the target marker (present or absent), the heights and
  the behaviour of the PID calls, each of the four fields of the dictionary that
  \<^verbatim>\<open>calculate_control\<close> returns lies between -100 and 100.
\<close>

theorem control_values_bounded:
  "- 100 \<le> left_right (fst (calculate_control pid self target_marker h th))
   \<and> left_right (fst (calculate_control pid self target_marker h th)) \<le> 100
   \<and> - 100 \<le> forward_backward (fst (calculate_control pid self target_marker h th))
   \<and> forward_backward (fst (calculate_control pid self target_marker h th)) \<le> 100
   \<and> - 100 \<le> up_down (fst (calculate_control pid self target_marker h th))
   \<and> up_down (fst (calculate_control pid self target_marker h th)) \<le> 100
   \<and> - 100 \<le> yaw (fst (calculate_control pid self target_marker h th))
   \<and> yaw (fst (calculate_control pid self target_marker h th)) \<le> 100"
  using calculate_control_in_range [of pid self target_marker h th]
  by (simp add: in_range_def)

lemma calculate_control_None:
  "fst (calculate_control pid self None h th) =
     zero_controls\<lparr>up_down :=
       (if h > th + HEIGHT_TOLERANCE_CM then - 20
        else if h < th - HEIGHT_TOLERANCE_CM then 20 else 0)\<rparr>"
  by (simp add: calculate_control_def finish_def clamp_all_def clamp_def zero_controls_def Let_def)

text \<open>
  Claim C9. Without a target marker the fields left_right, forward_backward and yaw of
  the command are 0, and up_down is -20 when the current height is above the target
  height by more than the tolerance, 20 when it is below by more than the tolerance,
  and 0 otherwise. With the current height within the tolerance of the target height
  the whole command is zero.
\<close>

theorem no_target_control:
  "left_right (fst (calculate_control pid self None h th)) = 0
   \<and> forward_backward (fst (calculate_control pid self None h th)) = 0
   \<and> yaw (fst (calculate_control pid self None h th)) = 0
   \<and> (h > th + HEIGHT_TOLERANCE_CM \<longrightarrow> up_down (fst (calculate_control pid self None h th)) = - 20)
   \<and> (h < th - HEIGHT_TOLERANCE_CM \<longrightarrow> up_down (fst (calculate_control pid self None h th)) = 20)
   \<and> (\<not> h > th + HEIGHT_TOLERANCE_CM \<and> \<not> h < th - HEIGHT_TOLERANCE_CM \<longrightarrow>
        up_down (fst (calculate_control pid self None h th)) = 0)
   \<and> (\<bar>h - th\<bar> \<le> HEIGHT_TOLERANCE_CM \<longrightarrow>
        fst (calculate_control pid self None h th) = zero_controls)"
  by (auto simp: calculate_control_None zero_controls_def HEIGHT_TOLERANCE_CM_def)

theorem no_target_control_witness:
  "(160::real) > 150 + HEIGHT_TOLERANCE_CM
   \<and> up_down (fst (calculate_control (p_controller 1) (sample_controller APPROACHING) None 160 150)) = - 20
   \<and> (140::real) < 150 - HEIGHT_TOLERANCE_CM
   \<and> up_down (fst (calculate_control (p_controller 1) (sample_controller APPROACHING) None 140 150)) = 20
   \<and> \<not> (153::real) > 150 + HEIGHT_TOLERANCE_CM \<and> \<not> (153::real) < 150 - HEIGHT_TOLERANCE_CM
   \<and> up_down (fst (calculate_control (p_controller 1) (sample_controller APPROACHING) None 153 150)) = 0
   \<and> \<bar>(150::real) - 150\<bar> \<le> HEIGHT_TOLERANCE_CM
   \<and> fst (calculate_control (p_controller 1) (sample_controller APPROACHING) None 150 150)
       = zero_controls"
proof -
  have a: "(160::real) > 150 + HEIGHT_TOLERANCE_CM"
    and b: "(140::real) < 150 - HEIGHT_TOLERANCE_CM"
    and c: "\<not> (153::real) > 150 + HEIGHT_TOLERANCE_CM \<and> \<not> (153::real) < 150 - HEIGHT_TOLERANCE_CM"
    and d: "\<bar>(150::real) - 150\<bar> \<le> HEIGHT_TOLERANCE_CM"
    by (simp_all add: HEIGHT_TOLERANCE_CM_def)
  note t = no_target_control [of "p_controller 1" "sample_controller APPROACHING"]
  from t [of 160 150] a
  have 1: "up_down (fst (calculate_control (p_controller 1) (sample_controller APPROACHING) None 160 150)) = - 20"
    by blast
  from t [of 140 150] b
  have 2: "up_down (fst (calculate_control (p_controller 1) (sample_controller APPROACHING) None 140 150)) = 20"
    by blast
  from t [of 153 150] c
  have 3: "up_down (fst (calculate_control (p_controller 1) (sample_controller APPROACHING) None 153 150)) = 0"
    by blast
  from t [of 150 150] d
  have 4: "fst (calculate_control (p_controller 1) (sample_controller APPROACHING) None 150 150) = zero_controls"
    by blast
  from a b c d 1 2 3 4 show ?thesis by blast
qed

section \<open>The rotation error at a zero denominator\<close>

lemma rotation_error_python:
  "rotation_error (PyFloat a) (PyFloat b) =
     (if a \<noteq> 0 \<and> b \<noteq> 0 then Fin (arctan (a / b) * 180 / pi) else Fin 0)"
  by (simp add: rotation_error_def)

lemma rotation_error_numpy:
  "rotation_error (NpFloat a) (NpFloat b) =
     (if a = 0 then Fin 0
      else if b \<noteq> 0 then Fin (arctan (a / b) * 180 / pi)
      else if 0 < a then Fin 90 else Fin (- 90))"
  by (simp add: rotation_error_def np_divide_def)

text \<open>
  Claim C3 says that the rotation error is 0 whenever \<open>dx\<close> or \<open>dy\<close> is 0. The marker
  (170, 192) has \<open>dx = 1/16\<close> and \<open>dy = 0\<close>. With the centre as numpy scalars, as
  \<^verbatim>\<open>detect_markers\<close> produces it, the division returns an infinity, no exception
  reaches the handler, and the rotation error is 90 degrees; in ALIGNING a proportional
  controller with gain 0.8 then commands a yaw of 72. With the centre as Python floats
  the division raises, the handler sets the rotation error to 0 and the yaw is 0.
\<close>

theorem rotation_error_zero_denominator:
  "num_val (marker_dx (np_marker 1 170 192 10)) = 1 / 16
   \<and> num_val (marker_dy (np_marker 1 170 192 10)) = 0
   \<and> rotation_error (marker_dx (np_marker 1 170 192 10)) (marker_dy (np_marker 1 170 192 10)) = Fin 90
   \<and> yaw (fst (calculate_control (p_controller (8 / 10)) (sample_controller ALIGNING)
                 (Some (np_marker 1 170 192 10)) 150 150)) = 72
   \<and> rotation_error (marker_dx (py_marker 1 170 192 10)) (marker_dy (py_marker 1 170 192 10)) = Fin 0
   \<and> yaw (fst (calculate_control (p_controller (8 / 10)) (sample_controller ALIGNING)
                 (Some (py_marker 1 170 192 10)) 150 150)) = 0"
  by (simp add: marker_dx_def marker_dy_def np_marker_def py_marker_def TARGET_X_def TARGET_Y_def
        rotation_error_numpy rotation_error_python calculate_control_def sample_controller_def
        sample_state_def p_controller_def py_int_def finish_def clamp_all_def clamp_def
        zero_controls_def HEIGHT_TOLERANCE_CM_def Let_def)

end
